theory Spec2Isabelle
  imports Main
begin

section \<open>The API gateway of api-gateway/src/server.js\<close>

text \<open>
  The gateway is an Express application: a chain of middleware that every request walks
  through in the order of the \<^verbatim>\<open>app.use\<close> calls. A middleware either ends the request
  (it writes the response) or calls \<^verbatim>\<open>next()\<close>. The model passes the request and the
  response object along as values and returns, next to the response, the list of calls made to
  the backends and the new state of the rate-limit store.

  Header names are case-insensitive in HTTP and Node keeps them under their lower-case name,
  inbound (\<^verbatim>\<open>srcReq.headers['content-type']\<close>) and on the wire. Every header map of the
  model is keyed by the lower-case name, so the source's writes to \<^verbatim>\<open>"Content-Type"\<close> update
  the key \<^verbatim>\<open>content-type\<close>.

  The headers that \<^verbatim>\<open>cors()\<close>, \<^verbatim>\<open>helmet()\<close> and the limiter put on the response are not
  computed: they are part of the response object \<open>res\<close> that the pipeline is given. Logging
  and the framing headers that each hop sets for itself are left out.
\<close>

subsection \<open>Strings\<close>

text \<open>
  \<^verbatim>\<open>toLowerCase\<close> and \<^verbatim>\<open>toUpperCase\<close> on the letters of ASCII, the only ones that matter
  for methods, paths and media types; \<^verbatim>\<open>startsWith\<close>; the white space of a regular
  expression's \<^verbatim>\<open>\s\<close> among the characters of a header value; \<^verbatim>\<open>trim\<close>.
\<close>

definition toLowerCase :: "string \<Rightarrow> string" where
  "toLowerCase s =
     map (\<lambda>c. case map_of (zip ''ABCDEFGHIJKLMNOPQRSTUVWXYZ'' ''abcdefghijklmnopqrstuvwxyz'') c of
               None \<Rightarrow> c | Some l \<Rightarrow> l) s"

definition toUpperCase :: "string \<Rightarrow> string" where
  "toUpperCase s =
     map (\<lambda>c. case map_of (zip ''abcdefghijklmnopqrstuvwxyz'' ''ABCDEFGHIJKLMNOPQRSTUVWXYZ'') c of
               None \<Rightarrow> c | Some u \<Rightarrow> u) s"

definition startsWith :: "string \<Rightarrow> string \<Rightarrow> bool" where
  "startsWith s searchString = (take (length searchString) s = searchString)"

definition whitespace :: "char \<Rightarrow> bool" where
  "whitespace c =
     (c \<in> set [CHR '' '', CHR 0x09, CHR 0x0A, CHR 0x0B, CHR 0x0C, CHR 0x0D, CHR 0xA0])"

definition trim :: "string \<Rightarrow> string" where
  "trim s = rev (dropWhile whitespace (rev (dropWhile whitespace s)))"

subsection \<open>Data\<close>

type_synonym headers = "string \<rightharpoonup> string"

datatype json = JBool bool | JString string | JObject "(string \<times> json) list"

datatype payload = Empty | Json json | Bytes string

text \<open>A JavaScript exception or a transport error, with its \<^verbatim>\<open>message\<close>.\<close>

datatype js_error = TypeError string | Error string

fun message :: "js_error \<Rightarrow> string" where
  "message (TypeError m) = m"
| "message (Error m) = m"

record user =
  userId :: string

record request =
  ip :: string
  method' :: string
  originalUrl :: string
  headers :: headers
  body :: string
  user :: "user option"

record response =
  statusCode :: nat
  resHeaders :: headers
  resBody :: payload

text \<open>\<^verbatim>\<open>res.status(code)\<close> and \<^verbatim>\<open>res.json(obj)\<close>.\<close>

definition status :: "nat \<Rightarrow> response \<Rightarrow> response" where
  "status code res = res\<lparr>statusCode := code\<rparr>"

definition json :: "json \<Rightarrow> response \<Rightarrow> response" where
  "json obj res = res\<lparr>resBody := Json obj\<rparr>"

text \<open>The backends, one per \<^verbatim>\<open>process.env.*_SERVICE_URL\<close>.\<close>

datatype service =
  IDENTITY_SERVICE | POST_SERVICE | MEDIA_SERVICE | SEARCH_SERVICE | PROFILE_SERVICE

text \<open>The options of the outbound request that a decorator may change.\<close>

record proxyReqOpts =
  optMethod :: string
  optHeaders :: headers

text \<open>An outbound call, as it leaves for a backend, and a backend's answer.\<close>

record proxyReq =
  host :: service
  reqMethod :: string
  reqPath :: string
  reqHeaders :: headers
  reqBody :: string

record proxyRes =
  proxyStatusCode :: nat
  proxyHeaders :: headers
  proxyResData :: string

text \<open>
  What the token validator makes of a credential, and the collaborators the pipeline calls
  into: the JSON body parser, the verification of a token against the secret, the response the
  validator writes on a failure, the terminal error handler, the network, the body the proxy
  sends when it has parsed it, zlib's \<^verbatim>\<open>gunzip\<close> and \<^verbatim>\<open>gzip\<close>, and the framework's
  \<^verbatim>\<open>res.send\<close>, which ends the relay of a backend's answer: it writes the body and may
  still change the response (it answers 304 with an empty body to a conditional request that
  is fresh, and sets entity headers of its own).
\<close>

datatype verdict = Identity string | Invalid | Expired | Malformed

record env =
  express_json :: "request \<Rightarrow> js_error option"
  verify :: "string \<Rightarrow> verdict"
  unauthorized :: "verdict \<Rightarrow> response \<Rightarrow> response"
  errorHandler :: "js_error \<Rightarrow> request \<Rightarrow> response \<Rightarrow> response"
  httpRequest :: "proxyReq \<Rightarrow> js_error + proxyRes"
  bodyContent :: "request \<Rightarrow> string"
  gunzip :: "string \<Rightarrow> js_error + string"
  gzip :: "string \<Rightarrow> string"
  send :: "request \<Rightarrow> response \<Rightarrow> string \<Rightarrow> response"

subsection \<open>Rate limiter\<close>

definition windowMs :: nat where
  "windowMs = 15 * 60 * 1000"

definition max_option :: nat where
  "max_option = 100"

text \<open>
  Modelled from the spec: the counting, which is done by the \<^verbatim>\<open>express-rate-limit\<close> package
  and its Redis store; they are dependencies and not among the sources. The counter store maps
  a key to its number of hits and the time (in milliseconds) at which its window ends. An
  increment opens a window of \<^verbatim>\<open>windowMs\<close> on the first hit of a key and after its window
  has ended, and counts the hit otherwise.
\<close>

type_synonym store = "string \<rightharpoonup> nat \<times> nat"

definition increment :: "store \<Rightarrow> nat \<Rightarrow> string \<Rightarrow> (nat \<times> nat) \<times> store" where
  "increment st now key =
     (let hit = (case st key of
                   None \<Rightarrow> (1, now + windowMs)
                 | Some (totalHits, resetTime) \<Rightarrow>
                     if now < resetTime then (totalHits + 1, resetTime)
                     else (1, now + windowMs))
      in (hit, st(key \<mapsto> hit)))"

text \<open>
  Modelled from the spec: the limiter's key. The options name no key generator, so the key is
  the default of the package (not among the sources), the caller's network address.
\<close>

definition keyGenerator :: "request \<Rightarrow> string" where
  "keyGenerator req = ip req"

definition handler :: "request \<Rightarrow> response \<Rightarrow> response" where
  "handler req res =
     json (JObject [(''success'', JBool False), (''message'', JString ''Too many requests'')])
       (status 429 res)"

text \<open>
  The limiter counts the request and either calls \<^verbatim>\<open>next()\<close> (\<open>None\<close>) or, when the new
  count exceeds \<^verbatim>\<open>max\<close>, ends the request with \<open>handler\<close>.
\<close>

definition rateLimitOptions ::
  "store \<Rightarrow> nat \<Rightarrow> request \<Rightarrow> response \<Rightarrow> response option \<times> store" where
  "rateLimitOptions st now req res =
     (let (hit, st') = increment st now (keyGenerator req)
      in (if fst hit > max_option then Some (handler req res) else None, st'))"

text \<open>A sequence of arrivals (time, request) at the limiter: each request with its admission.\<close>

fun arrivals :: "store \<Rightarrow> response \<Rightarrow> (nat \<times> request) list \<Rightarrow> (request \<times> bool) list" where
  "arrivals st res [] = []"
| "arrivals st res ((now, req) # rs) =
     (case rateLimitOptions st now req res of
        (ended, st') \<Rightarrow> (req, ended = None) # arrivals st' res rs)"

definition admissions :: "string \<Rightarrow> (request \<times> bool) list \<Rightarrow> bool list" where
  "admissions client log = map snd (filter (\<lambda>(req, ok). ip req = client) log)"

subsection \<open>Proxy options\<close>

text \<open>
  The options of one \<^verbatim>\<open>proxy(host, {...})\<close> call. \<open>proxyOptions\<close> holds the two entries
  that every route spreads into its own options; the other entries are there at the proxy
  library's defaults (no decoration, body parsed) until a route sets them.
\<close>

record proxy_options =
  proxyReqPathResolver :: "request \<Rightarrow> string"
  proxyErrorHandler :: "js_error \<Rightarrow> response \<Rightarrow> response"
  proxyReqOptDecorator :: "proxyReqOpts \<Rightarrow> request \<Rightarrow> js_error + proxyReqOpts"
  userResDecorator :: "proxyRes \<Rightarrow> string \<Rightarrow> request \<Rightarrow> response \<Rightarrow> string"
  parseReqBody :: bool

text \<open>
  \<^verbatim>\<open>s.replace(/^\/v1/, "/api")\<close>: the pattern is anchored at the start of the string, so
  only a leading \<^verbatim>\<open>/v1\<close> is replaced, and a string that does not start with it is returned
  as it is.
\<close>

definition replace_v1 :: "string \<Rightarrow> string" where
  "replace_v1 s = (if take 3 s = ''/v1'' then ''/api'' @ drop 3 s else s)"

definition proxyOptions :: proxy_options where
  "proxyOptions =
     \<lparr>proxyReqPathResolver = (\<lambda>req. replace_v1 (originalUrl req)),
      proxyErrorHandler = (\<lambda>err res.
        json (JObject [(''message'', JString ''Internal server error''),
                       (''error'', JString (message err))])
          (status 500 res)),
      proxyReqOptDecorator = (\<lambda>proxyReqOpts srcReq. Inr proxyReqOpts),
      userResDecorator = (\<lambda>proxyRes proxyResData userReq userRes. proxyResData),
      parseReqBody = True\<rparr>"

text \<open>
  Reading a property of \<^verbatim>\<open>undefined\<close> throws a TypeError: \<^verbatim>\<open>srcReq.user.userId\<close> when no
  middleware has set \<^verbatim>\<open>srcReq.user\<close>, and \<^verbatim>\<open>srcReq.headers['content-type'].startsWith\<close>
  when the request has no such header.
\<close>

definition undefined_read :: "string \<Rightarrow> js_error" where
  "undefined_read property =
     TypeError (''Cannot read properties of undefined (reading '' @
       [CHR 0x27] @ property @ [CHR 0x27] @ '')'')"

text \<open>The decorator of the identity route.\<close>

definition identityDecorator :: "proxyReqOpts \<Rightarrow> request \<Rightarrow> js_error + proxyReqOpts" where
  "identityDecorator proxyReqOpts srcReq =
     Inr (proxyReqOpts\<lparr>optHeaders :=
       (optHeaders proxyReqOpts)(''content-type'' \<mapsto> ''application/json'')\<rparr>)"

text \<open>The decorator that the post, search and profile routes each write out.\<close>

definition jsonUserDecorator :: "proxyReqOpts \<Rightarrow> request \<Rightarrow> js_error + proxyReqOpts" where
  "jsonUserDecorator proxyReqOpts srcReq =
     (case user srcReq of
        None \<Rightarrow> Inl (undefined_read ''userId'')
      | Some u \<Rightarrow>
          Inr (proxyReqOpts\<lparr>optHeaders :=
            (optHeaders proxyReqOpts)
              (''content-type'' \<mapsto> ''application/json'', ''x-user-id'' \<mapsto> userId u)\<rparr>))"

text \<open>The decorator of the media route.\<close>

definition mediaDecorator :: "proxyReqOpts \<Rightarrow> request \<Rightarrow> js_error + proxyReqOpts" where
  "mediaDecorator proxyReqOpts srcReq =
     (case user srcReq of
        None \<Rightarrow> Inl (undefined_read ''userId'')
      | Some u \<Rightarrow>
          (let opts = proxyReqOpts\<lparr>optHeaders :=
                 (optHeaders proxyReqOpts)(''x-user-id'' \<mapsto> userId u)\<rparr>
           in case headers srcReq ''content-type'' of
                None \<Rightarrow> Inl (undefined_read ''startsWith'')
              | Some contentType \<Rightarrow>
                  if \<not> startsWith contentType ''multipart/form-data''
                  then Inr (opts\<lparr>optHeaders :=
                         (optHeaders opts)(''content-type'' \<mapsto> ''application/json'')\<rparr>)
                  else Inr opts))"

definition identityOptions :: proxy_options where
  "identityOptions = proxyOptions\<lparr>proxyReqOptDecorator := identityDecorator,
     userResDecorator := (\<lambda>proxyRes proxyResData userReq userRes. proxyResData)\<rparr>"

definition postOptions :: proxy_options where
  "postOptions = proxyOptions\<lparr>proxyReqOptDecorator := jsonUserDecorator,
     userResDecorator := (\<lambda>proxyRes proxyResData userReq userRes. proxyResData)\<rparr>"

definition mediaOptions :: proxy_options where
  "mediaOptions = proxyOptions\<lparr>proxyReqOptDecorator := mediaDecorator,
     userResDecorator := (\<lambda>proxyRes proxyResData userReq userRes. proxyResData),
     parseReqBody := False\<rparr>"

definition searchOptions :: proxy_options where
  "searchOptions = proxyOptions\<lparr>proxyReqOptDecorator := jsonUserDecorator,
     userResDecorator := (\<lambda>proxyRes proxyResData userReq userRes. proxyResData)\<rparr>"

definition profileOptions :: proxy_options where
  "profileOptions = proxyOptions\<lparr>proxyReqOptDecorator := jsonUserDecorator,
     userResDecorator := (\<lambda>proxyRes proxyResData userReq userRes. proxyResData)\<rparr>"

subsection \<open>The proxy middleware\<close>

text \<open>
  The proxy library and the framework under it are dependencies and not part of the sources;
  the model follows what they do with the options that the source gives them.

  The JSON body parser, which stands before the routes, reads the body of a request whose media
  type is \<^verbatim>\<open>application/json\<close>. With \<^verbatim>\<open>parseReqBody: false\<close> the proxy pipes the inbound
  stream to the backend: the body as it arrived, or nothing when the parser has read it.
\<close>

definition mediaType :: "string \<Rightarrow> string" where
  "mediaType contentType = toLowerCase (trim (takeWhile (\<lambda>c. c \<noteq> CHR '';'') contentType))"

definition readByJsonParser :: "request \<Rightarrow> bool" where
  "readByJsonParser req =
     (case headers req ''content-type'' of
        None \<Rightarrow> False
      | Some contentType \<Rightarrow> mediaType contentType = ''application/json'')"

definition piped :: "request \<Rightarrow> string" where
  "piped req = (if readByJsonParser req then [] else body req)"

text \<open>
  The relay copies the backend's status code and sets each of the backend's headers, except
  \<^verbatim>\<open>Transfer-Encoding\<close>, on the response with \<^verbatim>\<open>res.set\<close>. For \<^verbatim>\<open>Content-Type\<close>,
  \<^verbatim>\<open>res.set\<close> adds a charset to a value that names none (\<^verbatim>\<open>/;\s*charset\s*=/\<close> does not
  match) when the type has a default one (\<^verbatim>\<open>/^text\/|^application\/(javascript|json)/\<close>).
\<close>

fun charsetRegExp :: "string \<Rightarrow> bool" where
  "charsetRegExp [] = False"
| "charsetRegExp (c # cs) =
     ((c = CHR '';'' \<and>
       (let r = dropWhile whitespace cs
        in startsWith r ''charset'' \<and> startsWith (dropWhile whitespace (drop 7 r)) ''=''))
      \<or> charsetRegExp cs)"

definition charsets_lookup :: "string \<Rightarrow> string option" where
  "charsets_lookup mimeType =
     (if startsWith mimeType ''text/'' \<or> startsWith mimeType ''application/javascript''
         \<or> startsWith mimeType ''application/json''
      then Some ''UTF-8'' else None)"

definition headerValue :: "string \<Rightarrow> string \<Rightarrow> string" where
  "headerValue field val =
     (if field = ''content-type'' \<and> \<not> charsetRegExp val then
        (case charsets_lookup (takeWhile (\<lambda>c. c \<noteq> CHR '';'') val) of
           None \<Rightarrow> val
         | Some charset \<Rightarrow> val @ ''; charset='' @ toLowerCase charset)
      else val)"

definition copyProxyResHeadersToUserRes :: "proxyRes \<Rightarrow> response \<Rightarrow> response" where
  "copyProxyResHeadersToUserRes proxyRes res =
     res\<lparr>statusCode := proxyStatusCode proxyRes,
         resHeaders := resHeaders res ++
           (\<lambda>field. if field = ''transfer-encoding'' then None
                    else map_option (headerValue field) (proxyHeaders proxyRes field))\<rparr>"

text \<open>
  With a response hook the proxy decompresses a gzip-encoded body for the hook and compresses
  the hook's result again; an empty body is left alone.
\<close>

definition isResGzipped :: "proxyRes \<Rightarrow> bool" where
  "isResGzipped proxyRes = (proxyHeaders proxyRes ''content-encoding'' = Some ''gzip'')"

definition decorateUserRes ::
  "env \<Rightarrow> proxy_options \<Rightarrow> proxyRes \<Rightarrow> request \<Rightarrow> response \<Rightarrow> js_error + string" where
  "decorateUserRes e options proxyRes req res =
     (if isResGzipped proxyRes then
        (case (if proxyResData proxyRes = [] then Inr [] else gunzip e (proxyResData proxyRes)) of
           Inl err \<Rightarrow> Inl err
         | Inr data \<Rightarrow>
             (let out = userResDecorator options proxyRes data req res
              in Inr (if out = [] then out else gzip e out)))
      else Inr (userResDecorator options proxyRes (proxyResData proxyRes) req res))"

text \<open>
  \<^verbatim>\<open>proxy(host, options)\<close> builds the outbound options from the inbound request, runs the
  request decorator, resolves the path, sends one request, and relays the answer. Whatever
  goes wrong on the way (an exception of a decorator, a failure of the call, a body that does
  not decompress) ends in \<^verbatim>\<open>proxyErrorHandler\<close>; nothing is sent again. The result is the
  response and the calls made.
\<close>

definition proxy ::
  "env \<Rightarrow> service \<Rightarrow> proxy_options \<Rightarrow> request \<Rightarrow> response \<Rightarrow> response \<times> proxyReq list" where
  "proxy e target options req res =
     (case proxyReqOptDecorator options \<lparr>optMethod = method' req, optHeaders = headers req\<rparr> req of
        Inl err \<Rightarrow> (proxyErrorHandler options err res, [])
      | Inr opts \<Rightarrow>
          (let call = \<lparr>host = target, reqMethod = optMethod opts,
                 reqPath = proxyReqPathResolver options req, reqHeaders = optHeaders opts,
                 reqBody = (if parseReqBody options then bodyContent e req else piped req)\<rparr>
           in case httpRequest e call of
                Inl err \<Rightarrow> (proxyErrorHandler options err res, [call])
              | Inr proxyRes \<Rightarrow>
                  (let copied = copyProxyResHeadersToUserRes proxyRes res
                   in case decorateUserRes e options proxyRes req copied of
                        Inl err \<Rightarrow> (proxyErrorHandler options err copied, [call])
                      | Inr data \<Rightarrow> (send e req copied data, [call]))))"

subsection \<open>Token validation\<close>

text \<open>
  Modelled from the spec: the extraction of the bearer token by \<^verbatim>\<open>validateToken\<close> of
  \<^verbatim>\<open>middleware/authMiddleware\<close>, which is not among the sources. The token is taken from
  the authorization header; there is none when the header is absent or not in the bearer
  scheme.
\<close>

definition bearer :: "request \<Rightarrow> string option" where
  "bearer req =
     (case headers req ''authorization'' of
        None \<Rightarrow> None
      | Some h \<Rightarrow> if startsWith h ''Bearer '' then Some (drop 7 h) else None)"

text \<open>
  Modelled from the spec: the validator's contract
  \<^verbatim>\<open>validate(rawCredential) -> {identity | invalid | expired | malformed}\<close>. A request without
  a bearer token is \<open>Malformed\<close>; otherwise the verdict is that of the verification of the
  token's signature and expiry against the secret.
\<close>

definition validate :: "env \<Rightarrow> request \<Rightarrow> verdict" where
  "validate e req = (case bearer req of None \<Rightarrow> Malformed | Some token \<Rightarrow> verify e token)"

text \<open>
  Modelled from the spec: the middleware \<^verbatim>\<open>validateToken\<close> of
  \<^verbatim>\<open>middleware/authMiddleware\<close>, which is not among the sources. On success it attaches
  the identity to the request (the source reads it as \<^verbatim>\<open>srcReq.user.userId\<close>) and calls
  \<^verbatim>\<open>next()\<close>. A failure is terminal: the validator answers with an unauthorized response
  and nothing is forwarded.
\<close>

definition validateToken :: "env \<Rightarrow> request \<Rightarrow> response \<Rightarrow> response + request" where
  "validateToken e req res =
     (case validate e req of
        Identity uid \<Rightarrow> Inr (req\<lparr>user := Some \<lparr>userId = uid\<rparr>\<rparr>)
      | failure \<Rightarrow> Inl (unauthorized e failure res))"

subsection \<open>Routes and the pipeline\<close>

text \<open>
  \<^verbatim>\<open>app.use(prefix, ...)\<close> runs its handlers for a request whose path is the prefix or
  continues it at a \<^verbatim>\<open>/\<close>, letters compared without regard to case (the framework's
  default). The path is the URL without a leading scheme and host (a request target in
  absolute form), up to the query string or fragment.
\<close>

fun afterScheme :: "string \<Rightarrow> string option" where
  "afterScheme [] = None"
| "afterScheme (c # cs) =
     (if startsWith (c # cs) ''://'' then Some (drop 2 cs) else afterScheme cs)"

definition afterProtohost :: "string \<Rightarrow> string" where
  "afterProtohost url =
     (if startsWith url ''/'' then url
      else (case afterScheme (takeWhile (\<lambda>c. c \<noteq> CHR ''?'') url) of
              None \<Rightarrow> url
            | Some found \<Rightarrow>
                (case afterScheme url of
                   None \<Rightarrow> url
                 | Some rest \<Rightarrow> dropWhile (\<lambda>c. c \<noteq> CHR ''/'') rest)))"

definition pathname :: "string \<Rightarrow> string" where
  "pathname url =
     takeWhile (\<lambda>c. c \<noteq> CHR ''?'' \<and> c \<noteq> CHR ''#'') (afterProtohost url)"

definition mounted :: "string \<Rightarrow> request \<Rightarrow> bool" where
  "mounted prefix req =
     (let p = toLowerCase (pathname (originalUrl req)); q = toLowerCase prefix
      in p = q \<or> take (length q + 1) p = q @ ''/'')"

text \<open>
  The mounts in the order of the source: the prefix, whether \<^verbatim>\<open>validateToken\<close> stands
  before the proxy, the backend and the options.
\<close>

definition routes :: "(string \<times> bool \<times> service \<times> proxy_options) list" where
  "routes =
     [(''/v1/auth'', False, IDENTITY_SERVICE, identityOptions),
      (''/v1/posts'', True, POST_SERVICE, postOptions),
      (''/v1/media'', True, MEDIA_SERVICE, mediaOptions),
      (''/v1/search'', True, SEARCH_SERVICE, searchOptions),
      (''/v1/profile'', True, PROFILE_SERVICE, profileOptions)]"

text \<open>
  The handlers of one mount: \<^verbatim>\<open>validateToken\<close>, where the mount has it, and then the
  proxy, which always ends the request.
\<close>

definition mount ::
  "env \<Rightarrow> bool \<Rightarrow> service \<Rightarrow> proxy_options \<Rightarrow> request \<Rightarrow> response
     \<Rightarrow> response option \<times> proxyReq list" where
  "mount e auth target options req res =
     (if auth then
        (case validateToken e req res of
           Inl denied \<Rightarrow> (Some denied, [])
         | Inr req' \<Rightarrow> (case proxy e target options req' res of (r, calls) \<Rightarrow> (Some r, calls)))
      else (case proxy e target options req res of (r, calls) \<Rightarrow> (Some r, calls)))"

text \<open>
  The first mount that takes the request handles it. A request that no mount takes is left to
  the framework (\<open>None\<close>): no handler of this file answers it.
\<close>

fun dispatch ::
  "env \<Rightarrow> (string \<times> bool \<times> service \<times> proxy_options) list \<Rightarrow> request \<Rightarrow> response
     \<Rightarrow> response option \<times> proxyReq list" where
  "dispatch e [] req res = (None, [])"
| "dispatch e ((prefix, auth, target, options) # rest) req res =
     (if mounted prefix req then mount e auth target options req res
      else dispatch e rest req res)"

text \<open>
  The pipeline behind \<^verbatim>\<open>cors()\<close> for one request arriving at time \<open>now\<close>: the JSON body
  parser (whose error goes straight to the error handler), the limiter, the routes.
\<close>

definition gateway ::
  "env \<Rightarrow> store \<Rightarrow> nat \<Rightarrow> request \<Rightarrow> response \<Rightarrow> response option \<times> proxyReq list \<times> store" where
  "gateway e st now req res =
     (case express_json e req of
        Some err \<Rightarrow> (Some (errorHandler e err req res), [], st)
      | None \<Rightarrow>
          (case rateLimitOptions st now req res of
             (Some limited, st') \<Rightarrow> (Some limited, [], st')
           | (None, st') \<Rightarrow>
               (case dispatch e routes req res of (r, calls) \<Rightarrow> (r, calls, st'))))"

text \<open>
  \<^verbatim>\<open>cors()\<close>, the first middleware, answers a preflight request itself: an \<^verbatim>\<open>OPTIONS\<close>
  request gets status 204 and no body, and goes no further. Every other request goes on
  (\<open>None\<close>).
\<close>

definition cors :: "request \<Rightarrow> response \<Rightarrow> response option" where
  "cors req res =
     (if toUpperCase (method' req) = ''OPTIONS''
      then Some (res\<lparr>statusCode := 204, resBody := Empty\<rparr>) else None)"

text \<open>The application: the whole chain of middleware.\<close>

definition app ::
  "env \<Rightarrow> store \<Rightarrow> nat \<Rightarrow> request \<Rightarrow> response \<Rightarrow> response option \<times> proxyReq list \<times> store" where
  "app e st now req res =
     (case cors req res of
        Some preflight \<Rightarrow> (Some preflight, [], st)
      | None \<Rightarrow> gateway e st now req res)"

subsection \<open>Sample values\<close>

text \<open>
  A fresh response object, a reader of the post service with a credential, and three
  environments: one whose backends answer with a 404, one whose backends are down, and one
  whose backends answer with a JSON document.
\<close>

definition res0 :: response where
  "res0 = \<lparr>statusCode = 200, resHeaders = Map.empty, resBody = Empty\<rparr>"

definition reader :: request where
  "reader = \<lparr>ip = ''10.0.0.7'', method' = ''GET'', originalUrl = ''/v1/posts/42?x=1'',
     headers = [''authorization'' \<mapsto> ''Bearer good''], body = [], user = None\<rparr>"

definition backend_up :: env where
  "backend_up = \<lparr>express_json = (\<lambda>req. None),
     verify = (\<lambda>token. if token = ''good'' then Identity ''u1'' else Invalid),
     unauthorized = (\<lambda>failure res. json (JObject [(''success'', JBool False)]) (status 401 res)),
     errorHandler = (\<lambda>err req res. json (JObject [(''success'', JBool False)]) (status 500 res)),
     httpRequest = (\<lambda>call. Inr \<lparr>proxyStatusCode = 404, proxyHeaders = [''etag'' \<mapsto> ''abc''],
       proxyResData = ''not found''\<rparr>),
     bodyContent = body, gunzip = Inr, gzip = (\<lambda>data. data),
     send = (\<lambda>req res data. res\<lparr>resBody := Bytes data\<rparr>)\<rparr>"

definition backend_down :: env where
  "backend_down = backend_up\<lparr>httpRequest := (\<lambda>call. Inl (Error ''connect ECONNREFUSED''))\<rparr>"

definition backend_json :: env where
  "backend_json = backend_up\<lparr>httpRequest := (\<lambda>call. Inr \<lparr>proxyStatusCode = 200,
     proxyHeaders = [''content-type'' \<mapsto> ''application/json''], proxyResData = ''{}''\<rparr>)\<rparr>"

section \<open>Properties\<close>

subsection \<open>The limiter's quota\<close>

lemma map_upt_shift: "f 0 # map (\<lambda>j. f (Suc j)) [0..<n] = map f [0..<Suc n]"
  by (simp add: map_upt_Suc del: upt_Suc)

lemma admissions_Cons:
  "admissions k ((req, ok) # log) =
     (if ip req = k then ok # admissions k log else admissions k log)"
  by (simp add: admissions_def)

lemma rateLimitOptions_other:
  "keyGenerator req \<noteq> k \<Longrightarrow> snd (rateLimitOptions st now req res) k = st k"
  by (simp add: rateLimitOptions_def increment_def Let_def split: prod.splits)

lemma rateLimitOptions_open:
  "st (keyGenerator req) = Some (c, reset) \<Longrightarrow> now < reset \<Longrightarrow>
   rateLimitOptions st now req res =
     (if c + 1 > max_option then Some (handler req res) else None,
      st(keyGenerator req \<mapsto> (c + 1, reset)))"
  by (simp add: rateLimitOptions_def increment_def Let_def)

lemma rateLimitOptions_fresh:
  "st (keyGenerator req) = None \<or>
     (\<exists>c reset. st (keyGenerator req) = Some (c, reset) \<and> reset \<le> now) \<Longrightarrow>
   rateLimitOptions st now req res = (None, st(keyGenerator req \<mapsto> (1, now + windowMs)))"
  by (auto simp add: rateLimitOptions_def increment_def Let_def max_option_def)

text \<open>
  Inside an open window that has counted \<open>c\<close> hits of a client, the client's \<open>j\<close>-th
  further request is admitted exactly when \<open>c + j < max\<close>; the requests of other clients do
  not matter.
\<close>

lemma arrivals_open:
  "st k = Some (c, reset) \<Longrightarrow>
   (\<forall>(t, r) \<in> set rs. ip r = k \<longrightarrow> t < reset) \<Longrightarrow>
   admissions k (arrivals st res rs) =
     map (\<lambda>j. c + j < max_option) [0..<length (filter (\<lambda>(t, r). ip r = k) rs)]"
proof (induction rs arbitrary: st c)
  case Nil
  then show ?case by (simp add: admissions_def)
next
  case (Cons a rs)
  obtain now req where a: "a = (now, req)" by (cases a)
  show ?case
  proof (cases "ip req = k")
    case True
    with Cons.prems a have lt: "now < reset" by simp
    have key: "st (keyGenerator req) = Some (c, reset)"
      using True Cons.prems(1) by (simp add: keyGenerator_def)
    have step: "rateLimitOptions st now req res =
        (if c + 1 > max_option then Some (handler req res) else None, st(k \<mapsto> (c + 1, reset)))"
      using rateLimitOptions_open [of st req c reset now res] key lt True
      by (simp add: keyGenerator_def)
    have rest: "admissions k (arrivals (st(k \<mapsto> (c + 1, reset))) res rs) =
        map (\<lambda>j. c + 1 + j < max_option) [0..<length (filter (\<lambda>(t, r). ip r = k) rs)]"
    proof (rule Cons.IH)
      show "(st(k \<mapsto> (c + 1, reset))) k = Some (c + 1, reset)" by simp
      show "\<forall>(t, r) \<in> set rs. ip r = k \<longrightarrow> t < reset" using Cons.prems(2) by simp
    qed
    have "admissions k (arrivals st res (a # rs)) =
        (c + 0 < max_option) # admissions k (arrivals (st(k \<mapsto> (c + 1, reset))) res rs)"
      using True by (auto simp add: a step admissions_Cons)
    also have "\<dots> = (c + 0 < max_option) #
        map (\<lambda>j. c + Suc j < max_option) [0..<length (filter (\<lambda>(t, r). ip r = k) rs)]"
      using rest by simp
    also have "\<dots> = map (\<lambda>j. c + j < max_option)
        [0..<Suc (length (filter (\<lambda>(t, r). ip r = k) rs))]"
      by (rule map_upt_shift)
    finally show ?thesis using True by (simp add: a del: upt_Suc)
  next
    case False
    obtain ended st' where r: "rateLimitOptions st now req res = (ended, st')"
      by (cases "rateLimitOptions st now req res")
    have same: "st' k = st k"
      using rateLimitOptions_other [of req k st now res] False r by (simp add: keyGenerator_def)
    have "admissions k (arrivals st' res rs) =
        map (\<lambda>j. c + j < max_option) [0..<length (filter (\<lambda>(t, r). ip r = k) rs)]"
    proof (rule Cons.IH)
      show "st' k = Some (c, reset)" using same Cons.prems(1) by simp
      show "\<forall>(t, r) \<in> set rs. ip r = k \<longrightarrow> t < reset" using Cons.prems(2) by simp
    qed
    then show ?thesis using False by (simp add: a r admissions_Cons)
  qed
qed

lemma quota_pattern: "map (\<lambda>j. j < (100::nat)) [0..<Suc 100] = replicate 100 True @ [False]"
  by code_simp

text \<open>
  C1. A client's request \<open>req0\<close> arrives at time \<open>t0\<close> when the store holds no window for
  the client, or one that has ended. Whatever requests follow, from this client within the
  15 minutes after \<open>t0\<close> and from any other client at any time, the client's requests are
  admitted in order of arrival exactly while fewer than 100 came before: the first 100 are
  admitted, the 101st (and every later one in the window) is denied.
\<close>

theorem first_100_admitted_101st_denied:
  assumes fresh: "st (ip req0) = None \<or>
      (\<exists>c reset. st (ip req0) = Some (c, reset) \<and> reset \<le> t0)"
    and window: "\<forall>(t, r) \<in> set rs. ip r = ip req0 \<longrightarrow> t < t0 + 15 * 60 * 1000"
  shows "admissions (ip req0) (arrivals st res ((t0, req0) # rs)) =
     map (\<lambda>j. j < 100) [0..<Suc (length (filter (\<lambda>(t, r). ip r = ip req0) rs))]"
proof -
  let ?k = "ip req0"
  let ?st = "st(?k \<mapsto> (1, t0 + windowMs))"
  have first: "rateLimitOptions st t0 req0 res = (None, ?st)"
    using rateLimitOptions_fresh [of st req0 t0 res] fresh by (simp add: keyGenerator_def)
  have rest: "admissions ?k (arrivals ?st res rs) =
      map (\<lambda>j. 1 + j < max_option) [0..<length (filter (\<lambda>(t, r). ip r = ?k) rs)]"
  proof (rule arrivals_open)
    show "?st ?k = Some (1, t0 + windowMs)" by simp
    show "\<forall>(t, r) \<in> set rs. ip r = ?k \<longrightarrow> t < t0 + windowMs"
      using window by (simp add: windowMs_def)
  qed
  have "admissions ?k (arrivals st res ((t0, req0) # rs)) =
      (0 < (100::nat)) # admissions ?k (arrivals ?st res rs)"
    by (simp add: first admissions_Cons)
  also have "\<dots> = (0 < (100::nat)) #
      map (\<lambda>j. Suc j < 100) [0..<length (filter (\<lambda>(t, r). ip r = ?k) rs)]"
    using rest by (simp add: max_option_def)
  also have "\<dots> = map (\<lambda>j. j < 100) [0..<Suc (length (filter (\<lambda>(t, r). ip r = ?k) rs))]"
    by (rule map_upt_shift)
  finally show ?thesis .
qed

theorem first_100_admitted_101st_denied_witness:
  "admissions ''10.0.0.7'' (arrivals Map.empty res0 (replicate 101 (0, reader))) =
     replicate 100 True @ [False]"
  using first_100_admitted_101st_denied [of Map.empty reader 0 "replicate 100 (0, reader)" res0]
    quota_pattern
  by (simp add: reader_def replicate_Suc [symmetric] del: replicate_Suc)

subsection \<open>Routing\<close>

lemma route_options:
  "(prefix, auth, target, options) \<in> set routes \<Longrightarrow>
   proxyReqPathResolver options = (\<lambda>req. replace_v1 (originalUrl req)) \<and>
   proxyErrorHandler options = proxyErrorHandler proxyOptions \<and>
   userResDecorator options = (\<lambda>proxyRes proxyResData userReq userRes. proxyResData)"
  by (auto simp add: routes_def identityOptions_def postOptions_def mediaOptions_def
      searchOptions_def profileOptions_def proxyOptions_def)

lemma route_flags:
  "(prefix, auth, target, options) \<in> set routes \<Longrightarrow>
   auth = (prefix \<noteq> ''/v1/auth'') \<and> 6 \<le> length prefix \<and> take 3 prefix = ''/v1''"
  by (auto simp add: routes_def)

lemma length_toLowerCase: "length (toLowerCase s) = length s"
  by (simp add: toLowerCase_def)

lemma mounted_take:
  assumes m: "mounted prefix req" and n: "n \<le> length prefix"
  shows "take n (toLowerCase (pathname (originalUrl req))) = take n (toLowerCase prefix)"
proof -
  let ?p = "toLowerCase (pathname (originalUrl req))"
  let ?q = "toLowerCase prefix"
  show ?thesis
  proof (cases "?p = ?q")
    case True
    then show ?thesis by simp
  next
    case False
    with m have "take (length ?q + 1) ?p = ?q @ ''/''"
      by (simp add: mounted_def Let_def)
    then have "take n (take (length ?q + 1) ?p) = take n (?q @ ''/'')" by simp
    with n show ?thesis by (simp add: min_def length_toLowerCase)
  qed
qed

lemma mounted_exclusive:
  assumes "mounted p req" and "mounted q req" and "6 \<le> length p" and "6 \<le> length q"
  shows "take 6 (toLowerCase p) = take 6 (toLowerCase q)"
  using mounted_take [OF assms(1,3)] mounted_take [OF assms(2,4)] by simp

lemma not_mounted:
  assumes "mounted p req" and "take 6 (toLowerCase q) \<noteq> take 6 (toLowerCase p)"
    and "6 \<le> length p" and "6 \<le> length q"
  shows "\<not> mounted q req"
  using mounted_exclusive [OF assms(1) _ assms(3,4)] assms(2) by auto

lemma dispatch_auth:
  "mounted ''/v1/auth'' req \<Longrightarrow>
   dispatch e routes req res = mount e False IDENTITY_SERVICE identityOptions req res"
  by (simp only: routes_def dispatch.simps if_True)

lemma dispatch_posts:
  assumes m: "mounted ''/v1/posts'' req"
  shows "dispatch e routes req res = mount e True POST_SERVICE postOptions req res"
proof -
  have "\<not> mounted ''/v1/auth'' req" by (rule not_mounted [OF m]) (simp_all add: toLowerCase_def)
  with m show ?thesis by (simp only: routes_def dispatch.simps if_True if_False)
qed

lemma dispatch_media:
  assumes m: "mounted ''/v1/media'' req"
  shows "dispatch e routes req res = mount e True MEDIA_SERVICE mediaOptions req res"
proof -
  have "\<not> mounted ''/v1/auth'' req" by (rule not_mounted [OF m]) (simp_all add: toLowerCase_def)
  moreover have "\<not> mounted ''/v1/posts'' req" by (rule not_mounted [OF m]) (simp_all add: toLowerCase_def)
  ultimately show ?thesis using m by (simp only: routes_def dispatch.simps if_True if_False)
qed

lemma dispatch_search:
  assumes m: "mounted ''/v1/search'' req"
  shows "dispatch e routes req res = mount e True SEARCH_SERVICE searchOptions req res"
proof -
  have "\<not> mounted ''/v1/auth'' req" by (rule not_mounted [OF m]) (simp_all add: toLowerCase_def)
  moreover have "\<not> mounted ''/v1/posts'' req" by (rule not_mounted [OF m]) (simp_all add: toLowerCase_def)
  moreover have "\<not> mounted ''/v1/media'' req" by (rule not_mounted [OF m]) (simp_all add: toLowerCase_def)
  ultimately show ?thesis using m by (simp only: routes_def dispatch.simps if_True if_False)
qed

lemma dispatch_profile:
  assumes m: "mounted ''/v1/profile'' req"
  shows "dispatch e routes req res = mount e True PROFILE_SERVICE profileOptions req res"
proof -
  have "\<not> mounted ''/v1/auth'' req" by (rule not_mounted [OF m]) (simp_all add: toLowerCase_def)
  moreover have "\<not> mounted ''/v1/posts'' req" by (rule not_mounted [OF m]) (simp_all add: toLowerCase_def)
  moreover have "\<not> mounted ''/v1/media'' req" by (rule not_mounted [OF m]) (simp_all add: toLowerCase_def)
  moreover have "\<not> mounted ''/v1/search'' req" by (rule not_mounted [OF m]) (simp_all add: toLowerCase_def)
  ultimately show ?thesis using m by (simp only: routes_def dispatch.simps if_True if_False)
qed

lemma routes_cases:
  assumes "(prefix, auth, target, options) \<in> set routes"
  shows "(prefix, auth, target, options) = (''/v1/auth'', False, IDENTITY_SERVICE, identityOptions) \<or>
     (prefix, auth, target, options) = (''/v1/posts'', True, POST_SERVICE, postOptions) \<or>
     (prefix, auth, target, options) = (''/v1/media'', True, MEDIA_SERVICE, mediaOptions) \<or>
     (prefix, auth, target, options) = (''/v1/search'', True, SEARCH_SERVICE, searchOptions) \<or>
     (prefix, auth, target, options) = (''/v1/profile'', True, PROFILE_SERVICE, profileOptions)"
  using assms unfolding routes_def by (simp only: set_simps insert_iff empty_iff simp_thms)

lemma dispatch_route:
  assumes r: "(prefix, auth, target, options) \<in> set routes" and m: "mounted prefix req"
  shows "dispatch e routes req res = mount e auth target options req res"
  using routes_cases [OF r] m
  by (elim disjE) (simp_all only: prod.inject dispatch_auth dispatch_posts dispatch_media
      dispatch_search dispatch_profile)

lemma dispatch_unmounted:
  "\<forall>(prefix, auth, target, options) \<in> set rts. \<not> mounted prefix req \<Longrightarrow>
   dispatch e rts req res = (None, [])"
  by (induction rts) auto

lemma validateToken_Inr:
  "validateToken e req res = Inr req' \<Longrightarrow>
   \<exists>uid. validate e req = Identity uid \<and> req' = req\<lparr>user := Some \<lparr>userId = uid\<rparr>\<rparr>"
  by (auto simp add: validateToken_def split: verdict.splits)

lemma validateToken_Identity:
  "validate e req = Identity uid \<Longrightarrow>
   validateToken e req res = Inr (req\<lparr>user := Some \<lparr>userId = uid\<rparr>\<rparr>)"
  by (simp add: validateToken_def)


text \<open>The proxy sends at most one request, and its answer follows from that request's fate.\<close>

lemma proxy_call:
  assumes "proxy e target options req res = (r, calls)" and "call \<in> set calls"
  shows "calls = [call] \<and> host call = target \<and>
     reqPath call = proxyReqPathResolver options req \<and>
     (\<exists>opts. proxyReqOptDecorator options \<lparr>optMethod = method' req, optHeaders = headers req\<rparr> req
        = Inr opts \<and> reqHeaders call = optHeaders opts) \<and>
     reqBody call = (if parseReqBody options then bodyContent e req else piped req) \<and>
     r = (case httpRequest e call of
            Inl err \<Rightarrow> proxyErrorHandler options err res
          | Inr proxyRes \<Rightarrow>
              (case decorateUserRes e options proxyRes req
                      (copyProxyResHeadersToUserRes proxyRes res) of
                 Inl err \<Rightarrow>
                   proxyErrorHandler options err (copyProxyResHeadersToUserRes proxyRes res)
               | Inr data \<Rightarrow> send e req (copyProxyResHeadersToUserRes proxyRes res) data))"
  using assms
  by (auto simp add: proxy_def Let_def split: sum.splits)


lemma proxy_throws:
  assumes "proxyReqOptDecorator options \<lparr>optMethod = method' req, optHeaders = headers req\<rparr> req
      = Inl err"
  shows "proxy e target options req res = (proxyErrorHandler options err res, [])"
  using assms by (simp add: proxy_def)

text \<open>A call made by the pipeline was made by the proxy of the mount that took the request.\<close>

lemma gateway_passed:
  assumes "express_json e req = None" and "fst (rateLimitOptions st now req res) = None"
  shows "gateway e st now req res =
     (fst (dispatch e routes req res), snd (dispatch e routes req res),
      snd (rateLimitOptions st now req res))"
  using assms by (cases "rateLimitOptions st now req res") (simp add: gateway_def split: prod.splits)

lemma gateway_call:
  assumes g: "gateway e st now req res = (r, calls, st')" and c: "call \<in> set calls"
  shows "express_json e req = None \<and> fst (rateLimitOptions st now req res) = None \<and>
     dispatch e routes req res = (r, calls)"
  using assms
  by (auto simp add: gateway_def split: option.splits prod.splits)

lemma dispatch_call:
  assumes d: "dispatch e routes req res = (r, calls)" and c: "call \<in> set calls"
  shows "\<exists>prefix auth target options req' resp.
     (prefix, auth, target, options) \<in> set routes \<and> mounted prefix req \<and>
     (if auth then validateToken e req res = Inr req' else req' = req) \<and>
     r = Some resp \<and> proxy e target options req' res = (resp, calls)"
proof (cases "\<exists>x \<in> set routes. case x of (prefix, auth, target, options) \<Rightarrow> mounted prefix req")
  case False
  then have "dispatch e routes req res = (None, [])"
    by (intro dispatch_unmounted) auto
  with d c show ?thesis by simp
next
  case True
  then obtain prefix auth target options where
    r: "(prefix, auth, target, options) \<in> set routes" and m: "mounted prefix req" by auto
  show ?thesis
  proof (cases auth)
    case False
    with dispatch_route [OF r m, of e res] d
    obtain resp where "r = Some resp" "proxy e target options req res = (resp, calls)"
      by (auto simp add: mount_def split: prod.splits)
    with r m False show ?thesis by (intro exI [of _ prefix] exI [of _ auth] exI [of _ target] exI [of _ options] exI [of _ req] exI [of _ resp]) simp
  next
    case True
    with dispatch_route [OF r m, of e res] d c
    obtain req' resp where "validateToken e req res = Inr req'" "r = Some resp"
      "proxy e target options req' res = (resp, calls)"
      by (auto simp add: mount_def split: sum.splits prod.splits)
    with r m True show ?thesis by (intro exI [of _ prefix] exI [of _ auth] exI [of _ target] exI [of _ options] exI [of _ req'] exI [of _ resp]) simp
  qed
qed

subsection \<open>Preflight requests\<close>

text \<open>
  An \<^verbatim>\<open>OPTIONS\<close> request is answered by \<^verbatim>\<open>cors()\<close>: it is not counted by the limiter and
  no backend is called. Every other request walks the pipeline behind it.
\<close>

lemma app_preflight:
  "toUpperCase (method' req) = ''OPTIONS'' \<Longrightarrow>
   app e st now req res = (Some (res\<lparr>statusCode := 204, resBody := Empty\<rparr>), [], st)"
  by (simp add: app_def cors_def)

lemma app_gateway:
  "toUpperCase (method' req) \<noteq> ''OPTIONS'' \<Longrightarrow>
   app e st now req res = gateway e st now req res"
  by (simp add: app_def cors_def)

subsection \<open>Denial by the limiter\<close>

text \<open>
  C2. When the limiter denies a request (the body parser has let it through and the limiter
  ends it), the response of the gateway is the limiter's: status 429 and the JSON body
  \<^verbatim>\<open>{success: false, message: "Too many requests"}\<close>; no call to a backend is made.
\<close>

theorem rate_limit_denial_is_429_without_forwarding:
  assumes "express_json e req = None"
    and "rateLimitOptions st now req res = (Some limited, st')"
  shows "gateway e st now req res = (Some limited, [], st') \<and>
     statusCode limited = 429 \<and>
     resBody limited =
       Json (JObject [(''success'', JBool False), (''message'', JString ''Too many requests'')])"
proof -
  have "limited = handler req res"
    using assms(2) by (auto simp add: rateLimitOptions_def Let_def split: prod.splits if_splits)
  then show ?thesis
    using assms by (simp add: gateway_def handler_def json_def status_def)
qed

theorem rate_limit_denial_is_429_without_forwarding_witness:
  "gateway backend_up [''10.0.0.7'' \<mapsto> (100, 900000)] 5000 reader res0 =
     (Some \<lparr>statusCode = 429, resHeaders = Map.empty,
        resBody = Json (JObject [(''success'', JBool False),
          (''message'', JString ''Too many requests'')])\<rparr>,
      [], [''10.0.0.7'' \<mapsto> (101, 900000)])"
proof -
  have parsed: "express_json backend_up reader = None"
    by (simp add: backend_up_def)
  have denied: "rateLimitOptions [''10.0.0.7'' \<mapsto> (100, 900000)] 5000 reader res0 =
      (Some (handler reader res0), [''10.0.0.7'' \<mapsto> (101, 900000)])"
    by (simp add: rateLimitOptions_def increment_def keyGenerator_def reader_def max_option_def
        Let_def)
  show ?thesis
    using rate_limit_denial_is_429_without_forwarding [OF parsed denied]
    by (simp add: handler_def json_def status_def res0_def)
qed

subsection \<open>Sample runs\<close>

text \<open>The definitions that a run of the pipeline on a concrete request unfolds.\<close>

lemmas path_defs = mounted_def pathname_def afterProtohost_def startsWith_def toLowerCase_def
  Let_def

lemmas run_defs = app_def cors_def gateway_def backend_up_def backend_down_def backend_json_def
  reader_def res0_def
  rateLimitOptions_def increment_def keyGenerator_def max_option_def windowMs_def routes_def
  mounted_def pathname_def afterProtohost_def toLowerCase_def toUpperCase_def mount_def
  validateToken_def validate_def bearer_def startsWith_def proxy_def identityOptions_def
  postOptions_def mediaOptions_def proxyOptions_def identityDecorator_def jsonUserDecorator_def
  mediaDecorator_def replace_v1_def json_def status_def copyProxyResHeadersToUserRes_def
  headerValue_def charsets_lookup_def decorateUserRes_def isResGzipped_def piped_def
  readByJsonParser_def mediaType_def trim_def whitespace_def Let_def

lemma relayed_single:
  "k \<noteq> t \<Longrightarrow>
   (\<lambda>field. if field = t then None
            else map_option (f field) (if field = k then Some v else None)) = [k \<mapsto> f k v]"
  by (auto simp add: fun_eq_iff)



subsection \<open>Path rewriting\<close>

text \<open>Every call has the path that the resolver makes of the URL of the request.\<close>

lemma forwarded_path:
  assumes "gateway e st now req res = (r, calls, st')" and "call \<in> set calls"
  shows "reqPath call = replace_v1 (originalUrl req)"
proof -
  from gateway_call [OF assms] have d: "dispatch e routes req res = (r, calls)" by simp
  from dispatch_call [OF d assms(2)] obtain prefix auth target options req' resp where
    rt: "(prefix, auth, target, options) \<in> set routes" and
    v: "if auth then validateToken e req res = Inr req' else req' = req" and
    p: "proxy e target options req' res = (resp, calls)" by blast
  have url: "originalUrl req' = originalUrl req"
    using v validateToken_Inr [of e req res req'] by (auto split: if_splits)
  show ?thesis
    using proxy_call [OF p assms(2)] route_options [OF rt] url by simp
qed

text \<open>
  C3. The resolver replaces a leading \<^verbatim>\<open>/v1\<close> in lower case at the very start of the URL,
  while the mounts take a request without regard to letter case and after a scheme and host.
  So the request for \<^verbatim>\<open>/V1/POSTS/42?x=1\<close> is forwarded to the post service with the path
  \<^verbatim>\<open>/V1/POSTS/42?x=1\<close>, and the request for \<^verbatim>\<open>http://gateway/v1/posts/42?x=1\<close> with that
  whole URL as its path: neither has the prefix replaced by \<^verbatim>\<open>/api\<close>. The request for
  \<^verbatim>\<open>/v1/posts/42?x=1\<close> is forwarded as \<^verbatim>\<open>/api/posts/42?x=1\<close>.
\<close>

theorem prefix_in_other_case_is_forwarded_unrewritten:
  "map (\<lambda>call. (host call, reqPath call))
     (fst (snd (app backend_up Map.empty 0 (reader\<lparr>originalUrl := ''/V1/POSTS/42?x=1''\<rparr>) res0))) =
     [(POST_SERVICE, ''/V1/POSTS/42?x=1'')] \<and>
   map (\<lambda>call. (host call, reqPath call))
     (fst (snd (app backend_up Map.empty 0
        (reader\<lparr>originalUrl := ''http://gateway/v1/posts/42?x=1''\<rparr>) res0))) =
     [(POST_SERVICE, ''http://gateway/v1/posts/42?x=1'')] \<and>
   map (\<lambda>call. (host call, reqPath call))
     (fst (snd (app backend_up Map.empty 0 reader res0))) =
     [(POST_SERVICE, ''/api/posts/42?x=1'')]"
  by (simp add: run_defs relayed_single cong: if_cong)

subsection \<open>Token validation per route\<close>









lemma media_route: "(''/v1/media'', True, MEDIA_SERVICE, mediaOptions) \<in> set routes"
  by (simp add: routes_def)


subsection \<open>Identity header\<close>




lemma mediaDecorator_None:
  "headers req ''content-type'' = None \<Longrightarrow>
   mediaDecorator base (req\<lparr>user := Some \<lparr>userId = uid\<rparr>\<rparr>) = Inl (undefined_read ''startsWith'')"
  by (simp add: mediaDecorator_def Let_def)


text \<open>
  What the pipeline does with a request that an authenticated mount takes with a valid
  credential.
\<close>

lemma gateway_authenticated:
  assumes rt: "(prefix, auth, target, options) \<in> set routes" and p: "prefix \<noteq> ''/v1/auth''"
    and m: "mounted prefix req" and v: "validate e req = Identity uid"
    and parsed: "express_json e req = None"
    and admitted: "fst (rateLimitOptions st now req res) = None"
  shows "gateway e st now req res =
     (Some (fst (proxy e target options (req\<lparr>user := Some \<lparr>userId = uid\<rparr>\<rparr>) res)),
      snd (proxy e target options (req\<lparr>user := Some \<lparr>userId = uid\<rparr>\<rparr>) res),
      snd (rateLimitOptions st now req res))"
proof -
  have auth: "auth" using route_flags [OF rt] p by simp
  have "dispatch e routes req res =
      (case proxy e target options (req\<lparr>user := Some \<lparr>userId = uid\<rparr>\<rparr>) res of
         (r, calls) \<Rightarrow> (Some r, calls))"
    using dispatch_route [OF rt m, of e res] auth
    by (simp add: mount_def validateToken_Identity [OF v])
  then show ?thesis
    using gateway_passed [OF parsed admitted] by (simp add: split_beta)
qed

lemma proxy_Inr:
  assumes "proxyReqOptDecorator options \<lparr>optMethod = method' req, optHeaders = headers req\<rparr> req
      = Inr opts"
  shows "snd (proxy e target options req res) =
     [\<lparr>host = target, reqMethod = optMethod opts, reqPath = proxyReqPathResolver options req,
       reqHeaders = optHeaders opts,
       reqBody = (if parseReqBody options then bodyContent e req else piped req)\<rparr>]"
  using assms by (simp add: proxy_def Let_def split: sum.splits)



subsection \<open>Content type on the media route\<close>

text \<open>
  Two uploads to the media route: the multipart one keeps its content type and its body, the
  plain one is forwarded as \<^verbatim>\<open>application/json\<close>.
\<close>

lemma upload_run:
  "gateway backend_up Map.empty 0
     (reader\<lparr>method' := ''POST'', originalUrl := ''/v1/media/upload'',
        headers := [''authorization'' \<mapsto> ''Bearer good'',
          ''content-type'' \<mapsto> ''multipart/form-data; boundary=x''],
        body := ''--x--''\<rparr>) res0 =
     (Some \<lparr>statusCode = 404, resHeaders = [''etag'' \<mapsto> ''abc''], resBody = Bytes ''not found''\<rparr>,
      [\<lparr>host = MEDIA_SERVICE, reqMethod = ''POST'', reqPath = ''/api/media/upload'',
        reqHeaders = [''authorization'' \<mapsto> ''Bearer good'',
          ''content-type'' \<mapsto> ''multipart/form-data; boundary=x'', ''x-user-id'' \<mapsto> ''u1''],
        reqBody = ''--x--''\<rparr>],
      [''10.0.0.7'' \<mapsto> (1, 900000)])"
  by (simp add: run_defs relayed_single cong: if_cong)

lemma plain_run:
  "gateway backend_up Map.empty 0
     (reader\<lparr>method' := ''POST'', originalUrl := ''/v1/media/upload'',
        headers := [''authorization'' \<mapsto> ''Bearer good'', ''content-type'' \<mapsto> ''text/plain''],
        body := ''hello''\<rparr>) res0 =
     (Some \<lparr>statusCode = 404, resHeaders = [''etag'' \<mapsto> ''abc''], resBody = Bytes ''not found''\<rparr>,
      [\<lparr>host = MEDIA_SERVICE, reqMethod = ''POST'', reqPath = ''/api/media/upload'',
        reqHeaders = [''authorization'' \<mapsto> ''Bearer good'', ''x-user-id'' \<mapsto> ''u1'',
          ''content-type'' \<mapsto> ''application/json''],
        reqBody = ''hello''\<rparr>],
      [''10.0.0.7'' \<mapsto> (1, 900000)])"
  by (simp add: run_defs relayed_single cong: if_cong)

text \<open>
  C6. On the media route a request with a content type that does not start with
  \<^verbatim>\<open>multipart/form-data\<close> is forwarded with the content type \<^verbatim>\<open>application/json\<close>, here
  for \<^verbatim>\<open>text/plain\<close>; but the request that carries no content-type header at all, here an
  authenticated \<^verbatim>\<open>DELETE /v1/media/7\<close>, is not forwarded: the decorator throws on the
  missing header and the answer is the 500 of \<^verbatim>\<open>proxyErrorHandler\<close>.
\<close>

theorem media_without_content_type_is_not_forwarded_as_json:
  "headers (reader\<lparr>method' := ''DELETE'', originalUrl := ''/v1/media/7''\<rparr>) ''content-type'' = None \<and>
   app backend_up Map.empty 0 (reader\<lparr>method' := ''DELETE'', originalUrl := ''/v1/media/7''\<rparr>) res0 =
     (Some \<lparr>statusCode = 500, resHeaders = Map.empty,
        resBody = Json (JObject [(''message'', JString ''Internal server error''),
          (''error'', JString (message (undefined_read ''startsWith'')))])\<rparr>,
      [], [''10.0.0.7'' \<mapsto> (1, 900000)]) \<and>
   map (\<lambda>call. (host call, reqHeaders call ''content-type''))
     (fst (snd (app backend_up Map.empty 0
        (reader\<lparr>method' := ''DELETE'', originalUrl := ''/v1/media/7'',
           headers := [''authorization'' \<mapsto> ''Bearer good'', ''content-type'' \<mapsto> ''text/plain'']\<rparr>)
        res0))) =
     [(MEDIA_SERVICE, Some ''application/json'')]"
  by (simp add: run_defs relayed_single cong: if_cong)

subsection \<open>Failure of the backend call\<close>

text \<open>
  C7. When the call to the backend fails with an error, it is the only call made for the
  request, and the response has status 500 and the JSON body
  \<^verbatim>\<open>{message: "Internal server error", error: <the error's message>}\<close>.
\<close>

theorem transport_failure_is_500_once:
  assumes g: "gateway e st now req res = (r, calls, st')" and c: "call \<in> set calls"
    and failed: "httpRequest e call = Inl err"
  shows "calls = [call] \<and>
     (\<exists>resp. r = Some resp \<and> statusCode resp = 500 \<and>
        resBody resp = Json (JObject [(''message'', JString ''Internal server error''),
          (''error'', JString (message err))]))"
proof -
  from gateway_call [OF g c] have d: "dispatch e routes req res = (r, calls)" by simp
  from dispatch_call [OF d c] obtain prefix auth target options req' resp where
    rt: "(prefix, auth, target, options) \<in> set routes" and
    r: "r = Some resp" and p: "proxy e target options req' res = (resp, calls)" by blast
  from proxy_call [OF p c] failed have one: "calls = [call]" and
    resp: "resp = proxyErrorHandler options err res" by simp_all
  from resp route_options [OF rt] have "statusCode resp = 500 \<and>
      resBody resp = Json (JObject [(''message'', JString ''Internal server error''),
        (''error'', JString (message err))])"
    by (simp add: proxyOptions_def json_def status_def)
  with one r show ?thesis by simp
qed

lemma outage_run:
  "gateway backend_down Map.empty 0 reader res0 =
     (Some \<lparr>statusCode = 500, resHeaders = Map.empty,
        resBody = Json (JObject [(''message'', JString ''Internal server error''),
          (''error'', JString ''connect ECONNREFUSED'')])\<rparr>,
      [\<lparr>host = POST_SERVICE, reqMethod = ''GET'', reqPath = ''/api/posts/42?x=1'',
        reqHeaders = [''authorization'' \<mapsto> ''Bearer good'', ''content-type'' \<mapsto> ''application/json'',
          ''x-user-id'' \<mapsto> ''u1''],
        reqBody = []\<rparr>],
      [''10.0.0.7'' \<mapsto> (1, 900000)])"
  by (simp add: run_defs relayed_single cong: if_cong)

theorem transport_failure_is_500_once_witness:
  "length (fst (snd (gateway backend_down Map.empty 0 reader res0))) = 1 \<and>
   map_option statusCode (fst (gateway backend_down Map.empty 0 reader res0)) = Some 500 \<and>
   map_option resBody (fst (gateway backend_down Map.empty 0 reader res0)) =
     Some (Json (JObject [(''message'', JString ''Internal server error''),
       (''error'', JString ''connect ECONNREFUSED'')]))"
proof -
  have failed: "httpRequest backend_down call = Inl (Error ''connect ECONNREFUSED'')" for call
    by (simp add: backend_down_def)
  show ?thesis
    using transport_failure_is_500_once [OF outage_run _ failed] outage_run
    by simp
qed

subsection \<open>Relaying the backend's answer\<close>







subsection \<open>The limiter's key\<close>

text \<open>
  C9. The limiter's key is the caller's address. Two requests from the same address get the
  same decision and the same update of the store, whatever their credentials, users and
  routes; and for every request that reaches the limiter the gateway's store update and the
  denial are those of the counter of the request's address.
\<close>

theorem rate_limit_key_is_caller_address:
  assumes "ip req' = ip req"
  shows "keyGenerator req = ip req \<and>
     rateLimitOptions st now req' res = rateLimitOptions st now req res \<and>
     (express_json e req = None \<longrightarrow>
        snd (snd (gateway e st now req res)) = snd (increment st now (ip req)) \<and>
        (fst (fst (increment st now (ip req))) > 100 \<longrightarrow>
           gateway e st now req res = (Some (handler req res), [], snd (increment st now (ip req)))))"
  using assms
  by (simp add: keyGenerator_def rateLimitOptions_def handler_def gateway_def max_option_def
      split_beta Let_def split: prod.splits option.splits)

theorem rate_limit_key_is_caller_address_witness:
  "rateLimitOptions [''10.0.0.7'' \<mapsto> (100, 900000)] 5000
     (reader\<lparr>originalUrl := ''/v1/auth/login'', headers := Map.empty,
        user := Some \<lparr>userId = ''u2''\<rparr>\<rparr>) res0 =
   (Some (handler reader res0), [''10.0.0.7'' \<mapsto> (101, 900000)])"
proof -
  have "rateLimitOptions [''10.0.0.7'' \<mapsto> (100, 900000)] 5000 reader res0 =
      (Some (handler reader res0), [''10.0.0.7'' \<mapsto> (101, 900000)])"
    by (simp add: rateLimitOptions_def increment_def keyGenerator_def reader_def max_option_def
        Let_def)
  then show ?thesis
    using rate_limit_key_is_caller_address [of
        "reader\<lparr>originalUrl := ''/v1/auth/login'', headers := Map.empty,
           user := Some \<lparr>userId = ''u2''\<rparr>\<rparr>" reader
        "[''10.0.0.7'' \<mapsto> (100, 900000)]" 5000 res0 backend_up]
    by simp
qed

subsection \<open>A media request without a content type\<close>

text \<open>
  C10. An authenticated request to the media route that has no content-type header makes the
  route's request decorator throw (it reads \<^verbatim>\<open>startsWith\<close> of \<^verbatim>\<open>undefined\<close>). The
  request is not forwarded: the proxy hands the exception to \<^verbatim>\<open>proxyErrorHandler\<close>, which
  answers with status 500.
\<close>

theorem media_without_content_type_throws:
  assumes m: "mounted ''/v1/media'' req" and v: "validate e req = Identity uid"
    and parsed: "express_json e req = None"
    and admitted: "fst (rateLimitOptions st now req res) = None"
    and ct: "headers req ''content-type'' = None"
  shows "proxyReqOptDecorator mediaOptions \<lparr>optMethod = method' req, optHeaders = headers req\<rparr>
       (req\<lparr>user := Some \<lparr>userId = uid\<rparr>\<rparr>) = Inl (undefined_read ''startsWith'') \<and>
     gateway e st now req res =
       (Some (json (JObject [(''message'', JString ''Internal server error''),
                 (''error'', JString (message (undefined_read ''startsWith'')))])
          (status 500 res)),
        [], snd (rateLimitOptions st now req res))"
proof -
  let ?req = "req\<lparr>user := Some \<lparr>userId = uid\<rparr>\<rparr>"
  let ?opts = "\<lparr>optMethod = method' ?req, optHeaders = headers ?req\<rparr>"
  have dec: "proxyReqOptDecorator mediaOptions ?opts ?req = Inl (undefined_read ''startsWith'')"
    using mediaDecorator_None [OF ct, where base = ?opts and uid = uid]
    by (simp add: mediaOptions_def)
  have "proxy e MEDIA_SERVICE mediaOptions ?req res =
      (proxyErrorHandler mediaOptions (undefined_read ''startsWith'') res, [])"
    by (rule proxy_throws [OF dec])
  then have "gateway e st now req res =
      (Some (proxyErrorHandler mediaOptions (undefined_read ''startsWith'') res), [],
       snd (rateLimitOptions st now req res))"
    using gateway_authenticated [OF media_route _ m v parsed admitted] by simp
  then show ?thesis using dec by (simp add: mediaOptions_def proxyOptions_def)
qed

lemma bare_media_run:
  "gateway backend_up Map.empty 0 (reader\<lparr>originalUrl := ''/v1/media/all''\<rparr>) res0 =
     (Some \<lparr>statusCode = 500, resHeaders = Map.empty,
        resBody = Json (JObject [(''message'', JString ''Internal server error''),
          (''error'', JString (message (undefined_read ''startsWith'')))])\<rparr>,
      [], [''10.0.0.7'' \<mapsto> (1, 900000)])"
  by (simp add: run_defs relayed_single cong: if_cong)

theorem media_without_content_type_throws_witness:
  "headers (reader\<lparr>originalUrl := ''/v1/media/all''\<rparr>) ''content-type'' = None \<and>
   validate backend_up (reader\<lparr>originalUrl := ''/v1/media/all''\<rparr>) = Identity ''u1'' \<and>
   gateway backend_up Map.empty 0 (reader\<lparr>originalUrl := ''/v1/media/all''\<rparr>) res0 =
     (Some \<lparr>statusCode = 500, resHeaders = Map.empty,
        resBody = Json (JObject [(''message'', JString ''Internal server error''),
          (''error'', JString (message (undefined_read ''startsWith'')))])\<rparr>,
      [], [''10.0.0.7'' \<mapsto> (1, 900000)])"
proof -
  let ?req = "reader\<lparr>originalUrl := ''/v1/media/all''\<rparr>"
  have m: "mounted ''/v1/media'' ?req"
    by (simp add: path_defs reader_def)
  have v: "validate backend_up ?req = Identity ''u1''"
    by (simp add: validate_def bearer_def reader_def backend_up_def startsWith_def)
  have parsed: "express_json backend_up ?req = None" by (simp add: backend_up_def)
  have st: "rateLimitOptions Map.empty 0 ?req res0 = (None, [''10.0.0.7'' \<mapsto> (1, 900000)])"
    by (simp add: rateLimitOptions_def increment_def max_option_def Let_def keyGenerator_def
        reader_def windowMs_def)
  have admitted: "fst (rateLimitOptions Map.empty 0 ?req res0) = None"
    by (simp add: st)
  have ct: "headers ?req ''content-type'' = None" by (simp add: reader_def)
  show ?thesis
    using media_without_content_type_throws [OF m v parsed admitted ct] v ct st
    by (simp add: json_def status_def res0_def)
qed

end
